theory Spec2Isabelle
  imports Main
begin

section \<open>JavaScript values\<close>

text \<open>
  The two servers (\<^verbatim>\<open>src/servers/filesystem/index.ts\<close> and the weather server) are
  TypeScript programs run by Node.js. The tool arguments they receive are untyped JSON
  data (\<^verbatim>\<open>args.path as string\<close> is a compile-time cast only), so the model keeps them as
  JavaScript values.

  \<^item> Strings are lists of code units below 256 (the Latin-1 range of UTF-16).
  \<^item> Numbers are integers: every numeric literal of the sources is one. \<open>JNaN\<close> is the
    one non-integer number that arises (from \<^verbatim>\<open>undefined + 2\<close>).
  \<^item> \<open>JObj\<close> is a plain object (prototype \<^verbatim>\<open>Object.prototype\<close>) given by its own enumerable
    properties in property order; the keys of one object are pairwise distinct and
    none is an array index.
  \<^item> \<open>JFunction\<close> is a built-in function object, named by its source text. It is
    reached only through the prototype chain of a plain object; JSON data never
    contains one.
\<close>

datatype jsval =
    JUndefined
  | JNull
  | JBool bool
  | JNum int
  | JNaN
  | JStr string
  | JArr "jsval list"
  | JObj "(string \<times> jsval) list"
  | JFunction string

text \<open>
  A thrown value. Every \<^verbatim>\<open>throw\<close> inside the servers' \<^verbatim>\<open>try\<close> blocks raises an instance
  of \<^verbatim>\<open>Error\<close>: the explicit \<^verbatim>\<open>new Error(...)\<close>, the \<^verbatim>\<open>TypeError\<close>s of the runtime, and the
  rejections of \<^verbatim>\<open>fs/promises\<close>. The payload is the error's \<^verbatim>\<open>message\<close>.
\<close>

datatype thrown = JsError string

fun message :: "thrown \<Rightarrow> string" where
  "message (JsError m) = m"

text \<open>Sequencing of computations that may throw: the first \<open>Inl\<close> ends the block.\<close>

definition bind :: "thrown + 'a \<Rightarrow> ('a \<Rightarrow> thrown + 'b) \<Rightarrow> thrown + 'b" where
  "bind m f = (case m of Inl e \<Rightarrow> Inl e | Inr v \<Rightarrow> f v)"

text \<open>\<^verbatim>\<open>!v\<close> is \<open>\<not> truthy v\<close>.\<close>

fun truthy :: "jsval \<Rightarrow> bool" where
  "truthy JUndefined = False"
| "truthy JNull = False"
| "truthy (JBool b) = b"
| "truthy (JNum n) = (n \<noteq> 0)"
| "truthy JNaN = False"
| "truthy (JStr s) = (s \<noteq> [])"
| "truthy (JArr xs) = True"
| "truthy (JObj ps) = True"
| "truthy (JFunction f) = True"

subsection \<open>Numbers and strings\<close>

definition digit_char :: "nat \<Rightarrow> char" where
  "digit_char d = char_of (48 + d)"

function string_of_nat :: "nat \<Rightarrow> string" where
  "string_of_nat n =
     (if n < 10 then [digit_char n] else string_of_nat (n div 10) @ [digit_char (n mod 10)])"
  by pat_completeness auto
termination
  by (relation "measure id") auto

declare string_of_nat.simps [simp del]

definition string_of_int :: "int \<Rightarrow> string" where
  "string_of_int i = (if i < 0 then CHR ''-'' # string_of_nat (nat (- i)) else string_of_nat (nat i))"

fun join :: "string \<Rightarrow> string list \<Rightarrow> string" where
  "join sep [] = []"
| "join sep [x] = x"
| "join sep (x # y # ys) = x @ sep @ join sep (y # ys)"

text \<open>
  \<^verbatim>\<open>String.prototype.toLowerCase\<close> on code units below 256: the ASCII capitals and the
  Latin-1 capitals U+00C0 to U+00DE (the multiplication sign U+00D7 apart) move up
  by 32; every other code unit stays.
\<close>

definition js_lower_char :: "char \<Rightarrow> char" where
  "js_lower_char c =
     (let n = (of_char c :: nat) in
      if (65 \<le> n \<and> n \<le> 90) \<or> (192 \<le> n \<and> n \<le> 222 \<and> n \<noteq> 215)
      then char_of (n + 32) else c)"

definition toLowerCase :: "string \<Rightarrow> string" where
  "toLowerCase s = map js_lower_char s"

subsection \<open>Property reads\<close>

text \<open>
  The members a plain object inherits from \<^verbatim>\<open>Object.prototype\<close>. The accessor
  \<^verbatim>\<open>__proto__\<close> yields the prototype object itself, which has no own enumerable
  property.
\<close>

definition Object_prototype_functions :: "string list" where
  "Object_prototype_functions =
     [''constructor'', ''__defineGetter__'', ''__defineSetter__'', ''hasOwnProperty'',
      ''__lookupGetter__'', ''__lookupSetter__'', ''isPrototypeOf'',
      ''propertyIsEnumerable'', ''toString'', ''valueOf'', ''toLocaleString'']"

definition native_source :: "string \<Rightarrow> string" where
  "native_source f = ''function '' @ f @ ''() { [native code] }''"

definition Object_prototype :: "string \<Rightarrow> jsval" where
  "Object_prototype k =
     (if k = ''constructor'' then JFunction (native_source ''Object'')
      else if k \<in> set Object_prototype_functions then JFunction (native_source k)
      else if k = ''__proto__'' then JObj []
      else JUndefined)"

text \<open>
  \<^verbatim>\<open>v[k]\<close> and \<^verbatim>\<open>v.k\<close>. Reading a property of \<^verbatim>\<open>undefined\<close> or \<^verbatim>\<open>null\<close> throws a
  \<^verbatim>\<open>TypeError\<close> (the message is V8's). A plain object answers with its own property,
  then with the inherited one. Primitives, arrays and functions have none of the
  properties this program reads by name (\<^verbatim>\<open>path\<close>, \<^verbatim>\<open>content\<close>, \<^verbatim>\<open>city\<close>, \<^verbatim>\<open>temperature\<close>,
  \<^verbatim>\<open>unit\<close>, \<^verbatim>\<open>humidity\<close>, \<^verbatim>\<open>windSpeed\<close>).
\<close>

fun nullish_name :: "jsval \<Rightarrow> string" where
  "nullish_name JNull = ''null''"
| "nullish_name v = ''undefined''"

definition cannot_read :: "jsval \<Rightarrow> string \<Rightarrow> thrown" where
  "cannot_read v k =
     JsError (''Cannot read properties of '' @ nullish_name v @ '' (reading ''
       @ [CHR 0x27] @ k @ [CHR 0x27] @ '')'')"

fun Get :: "jsval \<Rightarrow> string \<Rightarrow> thrown + jsval" where
  "Get JUndefined k = Inl (cannot_read JUndefined k)"
| "Get JNull k = Inl (cannot_read JNull k)"
| "Get (JObj ps) k = (case map_of ps k of Some v \<Rightarrow> Inr v | None \<Rightarrow> Inr (Object_prototype k))"
| "Get v k = Inr JUndefined"

text \<open>
  \<^verbatim>\<open>(v as string).toLowerCase()\<close>, written \<^verbatim>\<open>expr.toLowerCase()\<close> in the source. Only a
  string has the method. On \<^verbatim>\<open>undefined\<close> and \<^verbatim>\<open>null\<close> the property read throws; on any
  other value the method is missing (JSON data holds no function) and the call throws.
\<close>

fun call_toLowerCase :: "string \<Rightarrow> jsval \<Rightarrow> thrown + string" where
  "call_toLowerCase expr (JStr s) = Inr (toLowerCase s)"
| "call_toLowerCase expr JUndefined = Inl (cannot_read JUndefined ''toLowerCase'')"
| "call_toLowerCase expr JNull = Inl (cannot_read JNull ''toLowerCase'')"
| "call_toLowerCase expr v = Inl (JsError (expr @ ''.toLowerCase is not a function''))"

subsection \<open>Conversion to string\<close>

text \<open>
  \<^verbatim>\<open>ToString\<close>, as a template literal \<^verbatim>\<open>`${v}`\<close> applies it. An array joins its elements
  with commas (\<^verbatim>\<open>undefined\<close> and \<^verbatim>\<open>null\<close> elements as the empty string). A plain object
  is \<^verbatim>\<open>[object Object]\<close> through the inherited \<^verbatim>\<open>toString\<close>; an own property of that name
  shadows it, is not callable in JSON data, and the conversion throws.
\<close>

fun sequence :: "(thrown + 'a) list \<Rightarrow> thrown + 'a list" where
  "sequence [] = Inr []"
| "sequence (m # ms) =
     (case m of Inl e \<Rightarrow> Inl e
      | Inr v \<Rightarrow> (case sequence ms of Inl e \<Rightarrow> Inl e | Inr vs \<Rightarrow> Inr (v # vs)))"

fun ToString :: "jsval \<Rightarrow> thrown + string" where
  "ToString JUndefined = Inr ''undefined''"
| "ToString JNull = Inr ''null''"
| "ToString (JBool b) = Inr (if b then ''true'' else ''false'')"
| "ToString (JNum n) = Inr (string_of_int n)"
| "ToString JNaN = Inr ''NaN''"
| "ToString (JStr s) = Inr s"
| "ToString (JFunction src) = Inr src"
| "ToString (JObj ps) =
     (if ''toString'' \<in> set (map fst ps)
      then Inl (JsError ''Cannot convert object to primitive value'')
      else Inr ''[object Object]'')"
| "ToString (JArr xs) =
     (case sequence (map (\<lambda>x. if x = JUndefined \<or> x = JNull then Inr [] else ToString x) xs) of
        Inl e \<Rightarrow> Inl e
      | Inr ss \<Rightarrow> Inr (join '','' ss))"

subsection \<open>JSON.stringify\<close>

definition hex_digit :: "nat \<Rightarrow> char" where
  "hex_digit d = ''0123456789abcdef'' ! d"

text \<open>
  \<^verbatim>\<open>QuoteJSONString\<close>: the quotation mark and the backslash are escaped, the control
  characters below U+0020 become a short escape or \<^verbatim>\<open>\u00XX\<close>, every other code unit
  stands for itself.
\<close>

definition json_escape_char :: "char \<Rightarrow> string" where
  "json_escape_char c =
     (let n = (of_char c :: nat) in
      if n = 8 then [CHR 0x5C, CHR ''b'']
      else if n = 9 then [CHR 0x5C, CHR ''t'']
      else if n = 10 then [CHR 0x5C, CHR ''n'']
      else if n = 12 then [CHR 0x5C, CHR ''f'']
      else if n = 13 then [CHR 0x5C, CHR ''r'']
      else if n = 34 then [CHR 0x5C, CHR 0x22]
      else if n = 92 then [CHR 0x5C, CHR 0x5C]
      else if n < 32 then [CHR 0x5C, CHR ''u'', CHR ''0'', CHR ''0'', hex_digit (n div 16), hex_digit (n mod 16)]
      else [c])"

definition QuoteJSONString :: "string \<Rightarrow> string" where
  "QuoteJSONString s = [CHR 0x22] @ concat (map json_escape_char s) @ [CHR 0x22]"

text \<open>
  \<^verbatim>\<open>SerializeJSONProperty\<close> with its two helpers for arrays and objects inlined. \<open>gap\<close>
  is the indentation unit and \<open>indent\<close> the current indentation. The result \<open>None\<close> is
  \<^verbatim>\<open>undefined\<close>: a function or \<^verbatim>\<open>undefined\<close> has no JSON text, is left out of an object and
  stands as \<^verbatim>\<open>null\<close> in an array. \<^verbatim>\<open>NaN\<close> is written \<^verbatim>\<open>null\<close>.
\<close>

definition wrap_json :: "string \<Rightarrow> string \<Rightarrow> char \<Rightarrow> char \<Rightarrow> string list \<Rightarrow> string" where
  "wrap_json gap indent opening closing partial =
     (if partial = [] then [opening, closing]
      else if gap = [] then [opening] @ join '','' partial @ [closing]
      else [opening, CHR 0x0A] @ (indent @ gap)
           @ join ([CHR '','', CHR 0x0A] @ (indent @ gap)) partial
           @ [CHR 0x0A] @ indent @ [closing])"

fun SerializeJSONProperty :: "string \<Rightarrow> string \<Rightarrow> jsval \<Rightarrow> string option" where
  "SerializeJSONProperty gap indent JUndefined = None"
| "SerializeJSONProperty gap indent (JFunction f) = None"
| "SerializeJSONProperty gap indent JNull = Some ''null''"
| "SerializeJSONProperty gap indent (JBool b) = Some (if b then ''true'' else ''false'')"
| "SerializeJSONProperty gap indent (JNum n) = Some (string_of_int n)"
| "SerializeJSONProperty gap indent JNaN = Some ''null''"
| "SerializeJSONProperty gap indent (JStr s) = Some (QuoteJSONString s)"
| "SerializeJSONProperty gap indent (JArr xs) =
     Some (wrap_json gap indent CHR ''['' CHR '']''
       (map (\<lambda>x. case SerializeJSONProperty gap (indent @ gap) x of
                   None \<Rightarrow> ''null'' | Some s \<Rightarrow> s) xs))"
| "SerializeJSONProperty gap indent (JObj ps) =
     Some (wrap_json gap indent CHR ''{'' CHR ''}''
       (concat (map (\<lambda>(k, v). case SerializeJSONProperty gap (indent @ gap) v of
                   None \<Rightarrow> []
                 | Some s \<Rightarrow> [QuoteJSONString k @ '':'' @ (if gap = [] then [] else '' '') @ s]) ps)))"

text \<open>\<^verbatim>\<open>JSON.stringify(value, null, space)\<close> for a numeric \<open>space\<close>: at most ten spaces.\<close>

definition JSON_stringify :: "jsval \<Rightarrow> nat \<Rightarrow> string option" where
  "JSON_stringify v space = SerializeJSONProperty (replicate (min 10 space) CHR '' '') [] v"

section \<open>The response envelope\<close>

record content_block =
  block_type :: string
  block_text :: "string option"

record ToolCallResult =
  content :: "content_block list"
  isError :: "bool option"

text \<open>
  \<open>isError = None\<close> is a result object without the \<^verbatim>\<open>isError\<close> key, and
  \<open>block_text = None\<close> a block whose \<^verbatim>\<open>text\<close> is \<^verbatim>\<open>undefined\<close>.
\<close>

definition text_block :: "string option \<Rightarrow> content_block" where
  "text_block t = \<lparr>block_type = ''text'', block_text = t\<rparr>"

definition no_arguments_result :: ToolCallResult where
  "no_arguments_result =
     \<lparr>content = [text_block (Some ''Error: No arguments provided'')], isError = Some True\<rparr>"

definition success_result :: "string option \<Rightarrow> ToolCallResult" where
  "success_result t = \<lparr>content = [text_block t], isError = None\<rparr>"

text \<open>
  The \<^verbatim>\<open>catch\<close> block shared by both servers. The caught value is an \<^verbatim>\<open>Error\<close> instance,
  so \<^verbatim>\<open>errorMessage\<close> is its message.
\<close>

definition error_result :: "thrown \<Rightarrow> ToolCallResult" where
  "error_result error =
     (let errorMessage = message error
      in \<lparr>content = [text_block (Some (''Error: '' @ errorMessage))], isError = Some True\<rparr>)"

section \<open>Tool descriptors\<close>

record JsonSchemaProperty =
  property_type :: string
  property_description :: string

record InputSchema =
  schema_type :: string
  properties :: "(string \<times> JsonSchemaProperty) list"
  required :: "string list"

record Tool =
  name :: string
  description :: string
  inputSchema :: InputSchema

definition string_property :: "string \<Rightarrow> JsonSchemaProperty" where
  "string_property d = \<lparr>property_type = ''string'', property_description = d\<rparr>"

section \<open>The weather server\<close>

definition weather_record :: "string \<Rightarrow> int \<Rightarrow> string \<Rightarrow> string \<Rightarrow> int \<Rightarrow> int \<Rightarrow> jsval" where
  "weather_record c t u cond h w =
     JObj [(''city'', JStr c), (''temperature'', JNum t), (''unit'', JStr u),
           (''conditions'', JStr cond), (''humidity'', JNum h), (''windSpeed'', JNum w)]"

definition mockWeatherData :: jsval where
  "mockWeatherData =
     JObj [(''new york'', weather_record ''New York'' 72 ''F'' ''Partly cloudy'' 65 12),
           (''london'', weather_record ''London'' 18 ''C'' ''Rainy'' 80 15),
           (''tokyo'', weather_record ''Tokyo'' 25 ''C'' ''Sunny'' 55 8),
           (''paris'', weather_record ''Paris'' 20 ''C'' ''Cloudy'' 70 10),
           (''sydney'', weather_record ''Sydney'' 22 ''C'' ''Clear'' 60 18)]"

definition weather_tools :: "Tool list" where
  "weather_tools =
     [\<lparr>name = ''get_weather'',
       description = ''Get current weather information for a city (mock data). Supported cities: New York, London, Tokyo, Paris, Sydney'',
       inputSchema = \<lparr>schema_type = ''object'',
         properties = [(''city'', string_property ''Name of the city to get weather for'')],
         required = [''city'']\<rparr>\<rparr>,
      \<lparr>name = ''get_forecast'',
       description = ''Get 3-day weather forecast for a city (mock data)'',
       inputSchema = \<lparr>schema_type = ''object'',
         properties = [(''city'', string_property ''Name of the city to get forecast for'')],
         required = [''city'']\<rparr>\<rparr>]"

definition weather_listTools :: "Tool list" where
  "weather_listTools = weather_tools"

text \<open>
  \<^verbatim>\<open>v + n\<close> and \<^verbatim>\<open>v - n\<close> for a numeric literal \<open>n\<close>. The left operand is a property of an
  entry of \<open>mockWeatherData\<close> or of a member inherited from \<^verbatim>\<open>Object.prototype\<close>: a number,
  or \<^verbatim>\<open>undefined\<close>, which converts to \<^verbatim>\<open>NaN\<close>. Other operand kinds do not occur.
\<close>

fun js_plus :: "jsval \<Rightarrow> int \<Rightarrow> jsval" where
  "js_plus (JNum a) n = JNum (a + n)"
| "js_plus v n = JNaN"

fun js_minus :: "jsval \<Rightarrow> int \<Rightarrow> jsval" where
  "js_minus (JNum a) n = JNum (a - n)"
| "js_minus v n = JNaN"

text \<open>
  \<^verbatim>\<open>{ day: d, ...v }\<close>: the own enumerable properties of \<open>v\<close> follow \<^verbatim>\<open>day\<close>; one named
  \<^verbatim>\<open>day\<close> would replace its value in place. A function object and the prototype
  object have none.
\<close>

fun own_enumerable :: "jsval \<Rightarrow> (string \<times> jsval) list" where
  "own_enumerable (JObj ps) = ps"
| "own_enumerable v = []"

fun assign :: "(string \<times> jsval) list \<Rightarrow> string \<times> jsval \<Rightarrow> (string \<times> jsval) list" where
  "assign [] kv = [kv]"
| "assign (p # ps) kv = (if fst p = fst kv then kv # ps else p # assign ps kv)"

definition spread_after :: "(string \<times> jsval) list \<Rightarrow> jsval \<Rightarrow> jsval" where
  "spread_after ps v = JObj (foldl assign ps (own_enumerable v))"

definition not_available :: "string \<Rightarrow> thrown" where
  "not_available c =
     JsError (''Weather data not available for '' @ c
       @ ''. Supported cities: New York, London, Tokyo, Paris, Sydney'')"

definition unknown_tool :: "string \<Rightarrow> thrown" where
  "unknown_tool n = JsError (''Unknown tool: '' @ n)"

text \<open>
  The array literal of the forecast. The properties of \<^verbatim>\<open>currentWeather\<close> are read in the
  order of the source: those of the second object, then those of the third.
\<close>

definition forecast_of :: "jsval \<Rightarrow> thrown + jsval" where
  "forecast_of currentWeather =
     bind (Get currentWeather ''city'') (\<lambda>city1.
     bind (Get currentWeather ''temperature'') (\<lambda>temperature1.
     bind (Get currentWeather ''unit'') (\<lambda>unit1.
     bind (Get currentWeather ''humidity'') (\<lambda>humidity1.
     bind (Get currentWeather ''windSpeed'') (\<lambda>windSpeed1.
     bind (Get currentWeather ''city'') (\<lambda>city2.
     bind (Get currentWeather ''temperature'') (\<lambda>temperature2.
     bind (Get currentWeather ''unit'') (\<lambda>unit2.
     bind (Get currentWeather ''humidity'') (\<lambda>humidity2.
     bind (Get currentWeather ''windSpeed'') (\<lambda>windSpeed2.
       Inr (JArr
         [spread_after [(''day'', JStr ''Today'')] currentWeather,
          JObj [(''day'', JStr ''Tomorrow''),
                (''city'', city1),
                (''temperature'', js_plus temperature1 2),
                (''unit'', unit1),
                (''conditions'', JStr ''Partly cloudy''),
                (''humidity'', js_minus humidity1 5),
                (''windSpeed'', js_plus windSpeed1 3)],
          JObj [(''day'', JStr ''Day After Tomorrow''),
                (''city'', city2),
                (''temperature'', js_minus temperature2 1),
                (''unit'', unit2),
                (''conditions'', JStr ''Cloudy''),
                (''humidity'', js_plus humidity2 10),
                (''windSpeed'', js_minus windSpeed2 2)]])))))))))))"

text \<open>
  The body of the \<^verbatim>\<open>try\<close> block. The city is read and lowercased before the
  \<^verbatim>\<open>switch\<close>, for every tool name. \<^verbatim>\<open>${args.city}\<close> in the message reads the same
  property again.
\<close>

definition weather_try :: "string \<Rightarrow> jsval \<Rightarrow> thrown + ToolCallResult" where
  "weather_try nm args =
     bind (Get args ''city'') (\<lambda>c.
     bind (call_toLowerCase ''args.city'' c) (\<lambda>city.
       if nm = ''get_weather'' then
         bind (Get mockWeatherData city) (\<lambda>weather.
           if \<not> truthy weather
           then bind (Get args ''city'') (\<lambda>c'. bind (ToString c') (\<lambda>s. Inl (not_available s)))
           else Inr (success_result (JSON_stringify weather 2)))
       else if nm = ''get_forecast'' then
         bind (Get mockWeatherData city) (\<lambda>currentWeather.
           if \<not> truthy currentWeather
           then bind (Get args ''city'') (\<lambda>c'. bind (ToString c') (\<lambda>s. Inl (not_available s)))
           else bind (forecast_of currentWeather) (\<lambda>forecast.
                  Inr (success_result (JSON_stringify forecast 2))))
       else Inl (unknown_tool nm)))"

text \<open>
  The handler of \<^verbatim>\<open>CallToolRequestSchema\<close>. Its value is the outcome of the \<^verbatim>\<open>async\<close>
  function: \<open>Inr\<close> a result it resolves with, \<open>Inl\<close> a value it would reject with.
\<close>

definition weather_callTool :: "string \<Rightarrow> jsval \<Rightarrow> thrown + ToolCallResult" where
  "weather_callTool nm args =
     (if \<not> truthy args then Inr no_arguments_result
      else (case weather_try nm args of
              Inr result \<Rightarrow> Inr result
            | Inl error \<Rightarrow> Inr (error_result error)))"

section \<open>The filesystem server\<close>

text \<open>
  \<^verbatim>\<open>fs/promises\<close> is outside the program: the three functions the server awaits are
  parameters. Each takes its arguments as the program passes them (unchecked
  JavaScript values) and the state \<open>'w\<close> of the world, and yields the value the promise
  resolves with or the error it rejects with, and the world afterwards: every awaited
  promise is taken to settle, and to reject with an \<^verbatim>\<open>Error\<close> only. The constant
  arguments \<^verbatim>\<open>"utf-8"\<close> and \<^verbatim>\<open>{ withFileTypes: true }\<close> fix the result types: a string, and
  directory entries with a name and \<^verbatim>\<open>isDirectory()\<close>.
\<close>

record Dirent =
  dirent_name :: string
  dirent_isDirectory :: bool

record 'w fs_promises =
  readFile :: "jsval \<Rightarrow> 'w \<Rightarrow> (thrown + string) \<times> 'w"
  writeFile :: "jsval \<Rightarrow> jsval \<Rightarrow> 'w \<Rightarrow> (thrown + unit) \<times> 'w"
  readdir :: "jsval \<Rightarrow> 'w \<Rightarrow> (thrown + Dirent list) \<times> 'w"

definition filesystem_tools :: "Tool list" where
  "filesystem_tools =
     [\<lparr>name = ''read_file'',
       description = ''Read the contents of a file from the filesystem'',
       inputSchema = \<lparr>schema_type = ''object'',
         properties = [(''path'', string_property ''Path to the file to read'')],
         required = [''path'']\<rparr>\<rparr>,
      \<lparr>name = ''write_file'',
       description = ''Write content to a file on the filesystem'',
       inputSchema = \<lparr>schema_type = ''object'',
         properties = [(''path'', string_property ''Path to the file to write''),
                       (''content'', string_property ''Content to write to the file'')],
         required = [''path'', ''content'']\<rparr>\<rparr>,
      \<lparr>name = ''list_directory'',
       description = ''List contents of a directory'',
       inputSchema = \<lparr>schema_type = ''object'',
         properties = [(''path'', string_property ''Path to the directory to list'')],
         required = [''path'']\<rparr>\<rparr>]"

definition filesystem_listTools :: "Tool list" where
  "filesystem_listTools = filesystem_tools"

definition item_of :: "Dirent \<Rightarrow> jsval" where
  "item_of entry =
     JObj [(''name'', JStr (dirent_name entry)),
           (''type'', JStr (if dirent_isDirectory entry then ''directory'' else ''file''))]"

text \<open>
  The three cases of the \<^verbatim>\<open>switch\<close>. The local the source calls \<^verbatim>\<open>content\<close> is \<open>data\<close> here,
  \<open>content\<close> being the field of the result.
\<close>

definition read_file :: "'w fs_promises \<Rightarrow> jsval \<Rightarrow> 'w \<Rightarrow> (thrown + ToolCallResult) \<times> 'w" where
  "read_file fs args w =
     (case Get args ''path'' of
        Inl e \<Rightarrow> (Inl e, w)
      | Inr filePath \<Rightarrow>
          (case readFile fs filePath w of
             (Inl e, w') \<Rightarrow> (Inl e, w')
           | (Inr data, w') \<Rightarrow> (Inr (success_result (Some data)), w')))"

definition write_file :: "'w fs_promises \<Rightarrow> jsval \<Rightarrow> 'w \<Rightarrow> (thrown + ToolCallResult) \<times> 'w" where
  "write_file fs args w =
     (case Get args ''path'' of
        Inl e \<Rightarrow> (Inl e, w)
      | Inr filePath \<Rightarrow>
          (case Get args ''content'' of
             Inl e \<Rightarrow> (Inl e, w)
           | Inr data \<Rightarrow>
               (case writeFile fs filePath data w of
                  (Inl e, w') \<Rightarrow> (Inl e, w')
                | (Inr u, w') \<Rightarrow>
                    (case ToString filePath of
                       Inl e \<Rightarrow> (Inl e, w')
                     | Inr s \<Rightarrow> (Inr (success_result (Some (''Successfully wrote to '' @ s))), w')))))"

definition list_directory :: "'w fs_promises \<Rightarrow> jsval \<Rightarrow> 'w \<Rightarrow> (thrown + ToolCallResult) \<times> 'w" where
  "list_directory fs args w =
     (case Get args ''path'' of
        Inl e \<Rightarrow> (Inl e, w)
      | Inr dirPath \<Rightarrow>
          (case readdir fs dirPath w of
             (Inl e, w') \<Rightarrow> (Inl e, w')
           | (Inr entries, w') \<Rightarrow>
               (let items = JArr (map item_of entries)
                in (Inr (success_result (JSON_stringify items 2)), w'))))"

text \<open>The \<^verbatim>\<open>switch\<close> inside the \<^verbatim>\<open>try\<close> block.\<close>

definition filesystem_try ::
  "'w fs_promises \<Rightarrow> string \<Rightarrow> jsval \<Rightarrow> 'w \<Rightarrow> (thrown + ToolCallResult) \<times> 'w" where
  "filesystem_try fs nm args w =
     (if nm = ''read_file'' then read_file fs args w
      else if nm = ''write_file'' then write_file fs args w
      else if nm = ''list_directory'' then list_directory fs args w
      else (Inl (unknown_tool nm), w))"

definition filesystem_callTool ::
  "'w fs_promises \<Rightarrow> string \<Rightarrow> jsval \<Rightarrow> 'w \<Rightarrow> (thrown + ToolCallResult) \<times> 'w" where
  "filesystem_callTool fs nm args w =
     (if \<not> truthy args then (Inr no_arguments_result, w)
      else (case filesystem_try fs nm args w of
              (Inr result, w') \<Rightarrow> (Inr result, w')
            | (Inl error, w') \<Rightarrow> (Inr (error_result error), w')))"

section \<open>Serving requests\<close>

text \<open>
  The host sends discovery requests and call requests; the SDK's \<^verbatim>\<open>Server\<close> routes each
  to the handler registered for it. A handler that rejected would be answered with a
  protocol-level error. The functions below relate a request to what the registered
  handler returns for it. The SDK is not part of the repository: what it checks on a
  call request before the handler runs, and on the handler's result afterwards, is
  not described here, and nothing below is stated about those checks.
\<close>

datatype request = ListToolsRequest | CallToolRequest string jsval

datatype response = ToolsResponse "Tool list" | CallResponse ToolCallResult | ErrorResponse thrown

definition filesystem_handle :: "'w fs_promises \<Rightarrow> request \<Rightarrow> 'w \<Rightarrow> response \<times> 'w" where
  "filesystem_handle fs req w =
     (case req of
        ListToolsRequest \<Rightarrow> (ToolsResponse filesystem_listTools, w)
      | CallToolRequest nm args \<Rightarrow>
          (case filesystem_callTool fs nm args w of
             (Inr result, w') \<Rightarrow> (CallResponse result, w')
           | (Inl error, w') \<Rightarrow> (ErrorResponse error, w')))"

fun filesystem_serve :: "'w fs_promises \<Rightarrow> request list \<Rightarrow> 'w \<Rightarrow> response list \<times> 'w" where
  "filesystem_serve fs [] w = ([], w)"
| "filesystem_serve fs (req # reqs) w =
     (case filesystem_handle fs req w of
        (resp, w') \<Rightarrow> (case filesystem_serve fs reqs w' of (resps, w'') \<Rightarrow> (resp # resps, w'')))"

definition weather_handle :: "request \<Rightarrow> response" where
  "weather_handle req =
     (case req of
        ListToolsRequest \<Rightarrow> ToolsResponse weather_listTools
      | CallToolRequest nm args \<Rightarrow>
          (case weather_callTool nm args of
             Inr result \<Rightarrow> CallResponse result
           | Inl error \<Rightarrow> ErrorResponse error))"

definition weather_serve :: "request list \<Rightarrow> response list" where
  "weather_serve reqs = map weather_handle reqs"

section \<open>Auxiliary definitions for the statements\<close>

text \<open>\<^verbatim>\<open>String.prototype.includes\<close>: the text contains the given piece.\<close>

definition starts_with :: "string \<Rightarrow> string \<Rightarrow> bool" where
  "starts_with s p = (take (length p) s = p)"

fun str_includes :: "string \<Rightarrow> string \<Rightarrow> bool" where
  "str_includes [] p = (p = [])"
| "str_includes (c # cs) p = (starts_with (c # cs) p \<or> str_includes cs p)"

text \<open>
  A small file system in memory, to run the filesystem server on concrete requests:
  the world is a list of files (path and content), all in the directory \<^verbatim>\<open>/\<close>.
\<close>

definition invalid_path :: thrown where
  "invalid_path = JsError ''The path argument must be of type string''"

definition no_entry :: "string \<Rightarrow> thrown" where
  "no_entry p = JsError (''ENOENT: no such file or directory, open '' @ p)"

definition memory_fs :: "((string \<times> string) list) fs_promises" where
  "memory_fs =
     \<lparr>readFile = (\<lambda>p w. case p of
          JStr s \<Rightarrow> (case map_of w s of Some c \<Rightarrow> (Inr c, w) | None \<Rightarrow> (Inl (no_entry s), w))
        | _ \<Rightarrow> (Inl invalid_path, w)),
      writeFile = (\<lambda>p d w. case p of
          JStr s \<Rightarrow> (case d of JStr c \<Rightarrow> (Inr (), (s, c) # w) | _ \<Rightarrow> (Inl invalid_path, w))
        | _ \<Rightarrow> (Inl invalid_path, w)),
      readdir = (\<lambda>p w. case p of
          JStr s \<Rightarrow> (if s = ''/''
                     then (Inr (map (\<lambda>f. \<lparr>dirent_name = fst f, dirent_isDirectory = False\<rparr>) w), w)
                     else (Inl (no_entry s), w))
        | _ \<Rightarrow> (Inl invalid_path, w))\<rparr>"

section \<open>Reading a directory listing back\<close>

text \<open>
  That the text of a listing loses nothing is stated with a reader: it parses the
  text \<^verbatim>\<open>JSON.stringify(items, null, 2)\<close> produces for a list of items
  \<^verbatim>\<open>{ name, type }\<close> back into the names and kinds. \<open>unquote_body\<close> reads a JSON string
  literal after its opening quotation mark and returns the string and the rest of the
  input. \<open>parse_items\<close> takes a bound on the number of items as its first argument.
\<close>

definition hex_value :: "char \<Rightarrow> nat option" where
  "hex_value c =
     (let n = (of_char c :: nat) in
      if 48 \<le> n \<and> n \<le> 57 then Some (n - 48)
      else if 97 \<le> n \<and> n \<le> 102 then Some (n - 87)
      else None)"

definition unescape_char :: "char \<Rightarrow> char option" where
  "unescape_char e =
     (if e = CHR ''b'' then Some (CHR 0x08)
      else if e = CHR ''t'' then Some (CHR 0x09)
      else if e = CHR ''n'' then Some (CHR 0x0A)
      else if e = CHR ''f'' then Some (CHR 0x0C)
      else if e = CHR ''r'' then Some (CHR 0x0D)
      else if e = CHR 0x22 then Some (CHR 0x22)
      else if e = CHR 0x5C then Some (CHR 0x5C)
      else None)"

definition hex4 :: "char \<Rightarrow> char \<Rightarrow> char \<Rightarrow> char \<Rightarrow> nat option" where
  "hex4 a b h l =
     (case (hex_value a, hex_value b, hex_value h, hex_value l) of
        (Some x3, Some x2, Some x1, Some x0) \<Rightarrow> Some (((x3 * 16 + x2) * 16 + x1) * 16 + x0)
      | _ \<Rightarrow> None)"

definition cons_decoded :: "char \<Rightarrow> (string \<times> string) option \<Rightarrow> (string \<times> string) option" where
  "cons_decoded c r = (case r of None \<Rightarrow> None | Some (s, rest) \<Rightarrow> Some (c # s, rest))"

fun unquote_body :: "string \<Rightarrow> (string \<times> string) option" where
  "unquote_body [] = None"
| "unquote_body (c # cs) =
     (if c = CHR 0x22 then Some ([], cs)
      else if c = CHR 0x5C then
        (case cs of
           [] \<Rightarrow> None
         | e # cs' \<Rightarrow>
             (if e = CHR ''u'' then
                (case cs' of
                   a # b # h # l # rest \<Rightarrow>
                     (case hex4 a b h l of
                        None \<Rightarrow> None
                      | Some n \<Rightarrow> if n < 256 then cons_decoded (char_of n) (unquote_body rest) else None)
                 | _ \<Rightarrow> None)
              else (case unescape_char e of
                      None \<Rightarrow> None
                    | Some d \<Rightarrow> cons_decoded d (unquote_body cs'))))
      else cons_decoded c (unquote_body cs))"

definition strip_prefix :: "string \<Rightarrow> string \<Rightarrow> string option" where
  "strip_prefix p s = (if take (length p) s = p then Some (drop (length p) s) else None)"

definition name_prefix :: string where
  "name_prefix = [CHR ''{'', CHR 0x0A] @ ''    '' @ QuoteJSONString ''name'' @ '': '' @ [CHR 0x22]"

definition type_prefix :: string where
  "type_prefix = [CHR '','', CHR 0x0A] @ ''    '' @ QuoteJSONString ''type'' @ '': '' @ [CHR 0x22]"

definition item_suffix :: string where
  "item_suffix = [CHR 0x0A] @ ''  '' @ [CHR ''}'']"

definition item_separator :: string where
  "item_separator = [CHR '','', CHR 0x0A] @ ''  ''"

definition parse_item :: "string \<Rightarrow> ((string \<times> bool) \<times> string) option" where
  "parse_item s =
     (case strip_prefix name_prefix s of None \<Rightarrow> None | Some r1 \<Rightarrow>
      case unquote_body r1 of None \<Rightarrow> None | Some (nm, r2) \<Rightarrow>
      case strip_prefix type_prefix r2 of None \<Rightarrow> None | Some r3 \<Rightarrow>
      case unquote_body r3 of None \<Rightarrow> None | Some (ty, r4) \<Rightarrow>
      case strip_prefix item_suffix r4 of None \<Rightarrow> None | Some r5 \<Rightarrow>
        if ty = ''directory'' then Some ((nm, True), r5)
        else if ty = ''file'' then Some ((nm, False), r5)
        else None)"

fun parse_items :: "nat \<Rightarrow> string \<Rightarrow> (string \<times> bool) list option" where
  "parse_items 0 s = None"
| "parse_items (Suc k) s =
     (case parse_item s of
        None \<Rightarrow> None
      | Some (it, r) \<Rightarrow>
          (case strip_prefix item_separator r of
             Some r' \<Rightarrow> map_option ((#) it) (parse_items k r')
           | None \<Rightarrow> if r = [CHR 0x0A, CHR '']''] then Some [it] else None))"

definition decode_items :: "string \<Rightarrow> (string \<times> bool) list option" where
  "decode_items s =
     (if s = ''[]'' then Some []
      else (case strip_prefix ([CHR ''['', CHR 0x0A] @ ''  '') s of
              None \<Rightarrow> None
            | Some r \<Rightarrow> parse_items (length r) r))"

definition entry_of :: "Dirent \<Rightarrow> string \<times> bool" where
  "entry_of entry = (dirent_name entry, dirent_isDirectory entry)"

definition item_json :: "Dirent \<Rightarrow> string" where
  "item_json e =
     name_prefix @ tl (QuoteJSONString (dirent_name e)) @ type_prefix
       @ tl (QuoteJSONString (if dirent_isDirectory e then ''directory'' else ''file''))
       @ item_suffix"

text \<open>The keys of \<open>mockWeatherData\<close>.\<close>

definition supported_cities :: "string list" where
  "supported_cities = [''new york'', ''london'', ''tokyo'', ''paris'', ''sydney'']"

section \<open>Basic facts\<close>

subsection \<open>Sequencing\<close>

lemma bind_Inr_iff: "bind m f = Inr r \<longleftrightarrow> (\<exists>v. m = Inr v \<and> f v = Inr r)"
  by (cases m) (simp_all add: bind_def)

lemma bind_Inl_iff: "bind m f = Inl e \<longleftrightarrow> m = Inl e \<or> (\<exists>v. m = Inr v \<and> f v = Inl e)"
  by (cases m) (simp_all add: bind_def)

lemma sequence_Inl: "sequence ms = Inl e \<Longrightarrow> Inl e \<in> set ms"
  by (induction ms) (auto split: sum.splits)

subsection \<open>What the try blocks return\<close>

lemma weather_try_success: "weather_try nm args = Inr r \<Longrightarrow> \<exists>t. r = success_result t"
  by (auto simp: weather_try_def bind_Inr_iff split: if_splits)

lemma weather_try_registered:
  "weather_try nm args = Inr r \<Longrightarrow> nm = ''get_weather'' \<or> nm = ''get_forecast''"
  by (auto simp: weather_try_def bind_Inr_iff split: if_splits)

lemma filesystem_try_success:
  "filesystem_try fs nm args w = (Inr r, w') \<Longrightarrow> \<exists>t. r = success_result (Some t)"
  by (auto simp: filesystem_try_def read_file_def write_file_def list_directory_def
      JSON_stringify_def Let_def split: if_splits sum.splits prod.splits)

lemma fst_read_file:
  "fst (read_file fs args w) =
     bind (Get args ''path'') (\<lambda>p.
       bind (fst (readFile fs p w)) (\<lambda>d. Inr (success_result (Some d))))"
  by (auto simp: read_file_def bind_def split: sum.splits prod.splits)

lemma fst_write_file:
  "fst (write_file fs args w) =
     bind (Get args ''path'') (\<lambda>p.
       bind (Get args ''content'') (\<lambda>d.
         bind (fst (writeFile fs p d w)) (\<lambda>u.
           bind (ToString p) (\<lambda>s. Inr (success_result (Some (''Successfully wrote to '' @ s)))))))"
  by (auto simp: write_file_def bind_def split: sum.splits prod.splits)

lemma fst_list_directory:
  "fst (list_directory fs args w) =
     bind (Get args ''path'') (\<lambda>p.
       bind (fst (readdir fs p w)) (\<lambda>entries.
         Inr (success_result (JSON_stringify (JArr (map item_of entries)) 2))))"
  by (auto simp: list_directory_def bind_def split: sum.splits prod.splits)

lemma fst_filesystem_try:
  "fst (filesystem_try fs nm args w) =
     (if nm = ''read_file'' then fst (read_file fs args w)
      else if nm = ''write_file'' then fst (write_file fs args w)
      else if nm = ''list_directory'' then fst (list_directory fs args w)
      else Inl (unknown_tool nm))"
  by (simp add: filesystem_try_def)

lemma fst_filesystem_callTool:
  "fst (filesystem_callTool fs nm args w) =
     (if \<not> truthy args then Inr no_arguments_result
      else (case fst (filesystem_try fs nm args w) of
              Inr result \<Rightarrow> Inr result
            | Inl error \<Rightarrow> Inr (error_result error)))"
  by (auto simp: filesystem_callTool_def split: sum.splits prod.splits)

lemma filesystem_success:
  assumes "truthy args" and "filesystem_try fs nm args w = (Inr r, w')"
  shows "filesystem_callTool fs nm args w = (Inr r, w')"
    and "isError r = None"
    and "nm \<in> set (map name filesystem_tools)"
  using assms filesystem_try_success [OF assms(2)]
  by (auto simp: filesystem_callTool_def success_result_def filesystem_tools_def
      filesystem_try_def split: if_splits)

lemma read_file_success:
  assumes "filesystem_try fs ''read_file'' args w = (Inr r, w')"
  shows "\<exists>p d. Get args ''path'' = Inr p \<and> fst (readFile fs p w) = Inr d
           \<and> content r = [text_block (Some d)]"
  using assms
  by (auto simp: filesystem_try_def read_file_def success_result_def
      split: sum.splits prod.splits)

lemma write_file_success:
  assumes "filesystem_try fs ''write_file'' args w = (Inr r, w')"
  shows "\<exists>p s. Get args ''path'' = Inr p \<and> ToString p = Inr s
           \<and> content r = [text_block (Some (''Successfully wrote to '' @ s))]"
  using assms
  by (auto simp: filesystem_try_def write_file_def success_result_def
      split: sum.splits prod.splits)

subsection \<open>The three shapes of a result\<close>

lemma content_success: "length (content (success_result t)) = 1"
  by (simp add: success_result_def)

lemma content_error: "length (content (error_result e)) = 1"
  by (simp add: error_result_def)

lemma content_no_arguments: "length (content no_arguments_result) = 1"
  by (simp add: no_arguments_result_def)

lemma error_result_no_arguments:
  "error_result e = no_arguments_result \<longleftrightarrow> e = JsError ''No arguments provided''"
  by (cases e) (auto simp: error_result_def no_arguments_result_def text_block_def)

lemma success_not_no_arguments: "success_result t \<noteq> no_arguments_result"
  by (simp add: success_result_def no_arguments_result_def)

subsection \<open>Messages of thrown errors\<close>

lemma ToString_error:
  "ToString v = Inl e \<Longrightarrow> e = JsError ''Cannot convert object to primitive value''"
proof (induction v)
  case (JArr xs)
  from JArr.prems
  have "sequence (map (\<lambda>x. if x = JUndefined \<or> x = JNull then Inr [] else ToString x) xs) = Inl e"
    by (simp split: sum.splits)
  then obtain x where "x \<in> set xs" and "ToString x = Inl e"
    by (auto dest!: sequence_Inl split: if_splits)
  then show ?case by (rule JArr.IH)
qed (auto split: if_splits)

lemma Get_error: "Get v k = Inl e \<Longrightarrow> e \<noteq> JsError ''No arguments provided''"
  by (cases v) (auto simp: cannot_read_def split: option.splits)

lemma call_toLowerCase_error:
  "call_toLowerCase ''args.city'' v = Inl e \<Longrightarrow> e \<noteq> JsError ''No arguments provided''"
  by (cases v) (auto simp: cannot_read_def)

lemma forecast_of_error: "forecast_of cw = Inl e \<Longrightarrow> e \<noteq> JsError ''No arguments provided''"
  by (auto simp: forecast_of_def bind_Inl_iff dest: Get_error)

lemma weather_try_error: "weather_try nm args = Inl e \<Longrightarrow> e \<noteq> JsError ''No arguments provided''"
  by (auto simp: weather_try_def bind_Inl_iff not_available_def unknown_tool_def
      dest: Get_error call_toLowerCase_error forecast_of_error ToString_error split: if_splits)

subsection \<open>Request sequences and text search\<close>

lemma filesystem_serve_append:
  "filesystem_serve fs (xs @ ys) w =
     (fst (filesystem_serve fs xs w) @ fst (filesystem_serve fs ys (snd (filesystem_serve fs xs w))),
      snd (filesystem_serve fs ys (snd (filesystem_serve fs xs w))))"
  by (induction xs arbitrary: w) (auto split: prod.splits)

lemma str_includes_self: "str_includes s s"
  by (cases s) (simp_all add: starts_with_def)

lemma str_includes_append: "str_includes (p @ s) s"
  by (induction p) (simp_all add: str_includes_self)

subsection \<open>The reader inverts the writer on listings\<close>

lemma hex_value_hex_digit: "d < 16 \<Longrightarrow> hex_value (hex_digit d) = Some d"
proof -
  have "list_all (\<lambda>d. hex_value (hex_digit d) = Some d) [0..<16]"
    by code_simp
  then show "d < 16 \<Longrightarrow> hex_value (hex_digit d) = Some d"
    by (simp add: list_all_iff)
qed

lemma hex_value_zero: "hex_value CHR ''0'' = Some 0"
  by code_simp

lemma char_of_literals:
  "char_of (8::nat) = CHR 0x08" "char_of (9::nat) = CHR 0x09" "char_of (10::nat) = CHR 0x0A"
  "char_of (12::nat) = CHR 0x0C" "char_of (13::nat) = CHR 0x0D" "char_of (34::nat) = CHR 0x22"
  "char_of (92::nat) = CHR 0x5C"
  by code_simp+

lemma of_char_literals:
  "of_char (CHR 0x22) = (34::nat)" "of_char (CHR 0x5C) = (92::nat)"
  by code_simp+

lemma unquote_step:
  "unquote_body (json_escape_char c @ rest) = cons_decoded c (unquote_body rest)"
proof -
  define n :: nat where "n = of_char c"
  then have c: "c = char_of n" by simp
  consider "n = 8" | "n = 9" | "n = 10" | "n = 12" | "n = 13" | "n = 34" | "n = 92"
    | "n < 32" "n \<notin> {8, 9, 10, 12, 13}" | "32 \<le> n" "n \<noteq> 34" "n \<noteq> 92"
    by fastforce
  then show ?thesis
  proof cases
    case 8
    then have "n div 16 < 16" "n mod 16 < 16" "n div 16 * 16 + n mod 16 = n" "n < 256"
      by auto
    with 8 show ?thesis
      by (simp add: json_escape_char_def n_def [symmetric] hex4_def hex_value_hex_digit
          hex_value_zero c)
  next
    case 9
    then have "c \<noteq> CHR 0x22" "c \<noteq> CHR 0x5C"
      using of_char_literals n_def by auto
    with 9 show ?thesis
      by (simp add: json_escape_char_def n_def [symmetric])
  qed (simp_all add: json_escape_char_def n_def [symmetric] c char_of_literals unescape_char_def)
qed

lemma unquote_body_escape:
  "unquote_body (concat (map json_escape_char s) @ CHR 0x22 # rest) = Some (s, rest)"
  by (induction s) (simp_all add: unquote_step cons_decoded_def)

lemma unquote_QuoteJSONString:
  "unquote_body (tl (QuoteJSONString s) @ rest) = Some (s, rest)"
  by (simp add: QuoteJSONString_def unquote_body_escape)

lemma strip_prefix_append: "strip_prefix p (p @ r) = Some r"
  by (simp add: strip_prefix_def)

lemma item_serialized:
  "SerializeJSONProperty ''  '' ''  '' (item_of e) = Some (item_json e)"
  by (simp add: item_of_def item_json_def wrap_json_def name_prefix_def type_prefix_def
      item_suffix_def QuoteJSONString_def)

lemma parse_item_json: "parse_item (item_json e @ rest) = Some (entry_of e, rest)"
  by (simp add: parse_item_def item_json_def strip_prefix_append unquote_QuoteJSONString
      entry_of_def)

lemma items_serialized:
  "JSON_stringify (JArr (map item_of es)) 2 =
     Some (wrap_json ''  '' [] CHR ''['' CHR '']'' (map item_json es))"
  by (simp add: JSON_stringify_def item_serialized comp_def numeral_2_eq_2)

lemma parse_items_join:
  "es \<noteq> [] \<Longrightarrow> length es \<le> k \<Longrightarrow>
   parse_items k (join item_separator (map item_json es) @ [CHR 0x0A, CHR '']''])
     = Some (map entry_of es)"
proof (induction es arbitrary: k)
  case Nil
  then show ?case by simp
next
  case (Cons e es)
  then obtain k' where k: "k = Suc k'" by (cases k) auto
  show ?case
  proof (cases es)
    case Nil
    then show ?thesis
      by (simp add: k parse_item_json strip_prefix_def item_separator_def)
  next
    case (Cons e' es')
    with Cons.prems k have "length es \<le> k'" "es \<noteq> []" by auto
    then have "parse_items k' (join item_separator (map item_json es) @ [CHR 0x0A, CHR '']''])
       = Some (map entry_of es)" by (rule Cons.IH [rotated])
    with Cons show ?thesis
      by (simp add: k parse_item_json strip_prefix_append)
  qed
qed

lemma length_join_nonempty:
  "\<forall>x\<in>set xs. 0 < length x \<Longrightarrow> length xs \<le> length (join sep xs)"
proof (induction sep xs rule: join.induct)
  case (3 sep x y ys)
  then have "length (y # ys) \<le> length (join sep (y # ys))" by simp
  moreover from 3 have "x \<noteq> []" by simp
  ultimately show ?case by (cases x) simp_all
qed (auto simp: Suc_le_eq)

lemma item_json_nonempty: "0 < length (item_json e)"
  by (simp add: item_json_def name_prefix_def)

lemma decode_items_serialized:
  "decode_items (wrap_json ''  '' [] CHR ''['' CHR '']'' (map item_json es)) = Some (map entry_of es)"
proof (cases "es = []")
  case True
  then show ?thesis by (simp add: wrap_json_def decode_items_def)
next
  case False
  let ?r = "join item_separator (map item_json es) @ [CHR 0x0A, CHR '']'']"
  have shape: "wrap_json ''  '' [] CHR ''['' CHR '']'' (map item_json es)
      = ([CHR ''['', CHR 0x0A] @ ''  '') @ ?r"
    using False by (simp add: wrap_json_def item_separator_def)
  have "\<forall>x\<in>set (map item_json es). 0 < length x"
    using item_json_nonempty by auto
  then have "length (map item_json es) \<le> length (join item_separator (map item_json es))"
    by (rule length_join_nonempty)
  then have "length es \<le> length ?r" by simp
  with False have "parse_items (length ?r) ?r = Some (map entry_of es)"
    by (rule parse_items_join)
  then show ?thesis
    unfolding shape decode_items_def strip_prefix_append by simp
qed

lemma listing_read_back:
  "\<exists>t. JSON_stringify (JArr (map item_of es)) 2 = Some t \<and> decode_items t = Some (map entry_of es)"
  by (simp add: items_serialized decode_items_serialized)

lemma list_directory_success:
  assumes "filesystem_try fs ''list_directory'' args w = (Inr r, w')"
  shows "\<exists>p entries t. Get args ''path'' = Inr p \<and> fst (readdir fs p w) = Inr entries
           \<and> JSON_stringify (JArr (map item_of entries)) 2 = Some t
           \<and> content r = [text_block (Some t)]
           \<and> decode_items t = Some (map entry_of entries)"
  using assms
  by (auto simp: filesystem_try_def list_directory_def success_result_def Let_def
      items_serialized decode_items_serialized split: sum.splits prod.splits)

subsection \<open>The weather table\<close>

text \<open>
  The operands of the arithmetic in the forecast are numbers or \<^verbatim>\<open>undefined\<close>, whatever
  the lookup in \<open>mockWeatherData\<close> found: an own entry or an inherited member.
\<close>

lemma lookup_cases:
  assumes "Get mockWeatherData k = Inr cw"
  shows "cw \<in> set (map snd (own_enumerable mockWeatherData)) \<or> cw = Object_prototype k"
  using assms by (auto simp: mockWeatherData_def split: if_splits)

lemma prototype_member_kinds:
  "Object_prototype k = JUndefined \<or> Object_prototype k = JObj []
   \<or> (\<exists>src. Object_prototype k = JFunction src)"
  by (simp add: Object_prototype_def)

lemma forecast_operands:
  assumes "Get mockWeatherData k = Inr cw"
    and "f \<in> {''temperature'', ''humidity'', ''windSpeed''}"
    and "Get cw f = Inr v"
  shows "v = JUndefined \<or> (\<exists>n. v = JNum n)"
proof -
  from assms(1) consider "cw \<in> set (map snd (own_enumerable mockWeatherData))"
    | "cw = JUndefined" | "cw = JObj []" | src where "cw = JFunction src"
    using lookup_cases prototype_member_kinds by metis
  then show ?thesis
  proof cases
    case 1
    with assms(2,3) show ?thesis
      by (auto simp: mockWeatherData_def weather_record_def)
  next
    case 3
    with assms(2,3) show ?thesis
      by (auto simp: Object_prototype_def Object_prototype_functions_def)
  qed (use assms(3) in auto)
qed

lemma weather_record_usable:
  assumes "map_of (own_enumerable mockWeatherData) k = Some r"
  shows "k \<in> set supported_cities \<and> truthy r \<and> (\<exists>f. forecast_of r = Inr f)"
  using assms
  by (auto simp: mockWeatherData_def supported_cities_def weather_record_def forecast_of_def
      bind_def split: if_splits)

lemma stringify_object: "\<exists>t. JSON_stringify (JObj ps) n = Some t"
  by (simp add: JSON_stringify_def)

lemma stringify_array: "\<exists>t. JSON_stringify (JArr xs) n = Some t"
  by (simp add: JSON_stringify_def)

lemma weather_record_text:
  assumes "map_of (own_enumerable mockWeatherData) k = Some r"
  shows "\<exists>t. JSON_stringify r 2 = Some t"
  using assms
  by (auto simp: mockWeatherData_def weather_record_def stringify_object split: if_splits)

lemma forecast_text: "forecast_of r = Inr f \<Longrightarrow> \<exists>t. JSON_stringify f 2 = Some t"
  by (auto simp: forecast_of_def bind_Inr_iff stringify_array)

lemma get_weather_supported:
  assumes "truthy args" and "Get args ''city'' = Inr (JStr s)"
    and "map_of (own_enumerable mockWeatherData) (toLowerCase s) = Some r"
  shows "weather_callTool ''get_weather'' args = Inr (success_result (JSON_stringify r 2))"
proof -
  from assms(3) have "Get mockWeatherData (toLowerCase s) = Inr r"
    by (simp add: mockWeatherData_def)
  moreover from assms(3) have "truthy r"
    using weather_record_usable by blast
  ultimately show ?thesis
    using assms(1,2) by (simp add: weather_callTool_def weather_try_def bind_def)
qed

lemma get_forecast_supported:
  assumes "truthy args" and "Get args ''city'' = Inr (JStr s)"
    and "map_of (own_enumerable mockWeatherData) (toLowerCase s) = Some r"
  shows "\<exists>f. forecast_of r = Inr f
     \<and> weather_callTool ''get_forecast'' args = Inr (success_result (JSON_stringify f 2))"
proof -
  from assms(3) have get: "Get mockWeatherData (toLowerCase s) = Inr r"
    by (simp add: mockWeatherData_def)
  from assms(3) have "truthy r"
    using weather_record_usable by blast
  moreover from assms(3) obtain f where "forecast_of r = Inr f"
    using weather_record_usable by blast
  ultimately show ?thesis
    using assms(1,2) get by (simp add: weather_callTool_def weather_try_def bind_def)
qed

lemma weather_texts_distinct:
  "distinct (map (\<lambda>r. JSON_stringify r 2) (map snd (own_enumerable mockWeatherData)))"
  by code_simp

lemma forecast_texts_distinct:
  "distinct (map (\<lambda>r. case forecast_of r of Inl e \<Rightarrow> None | Inr f \<Rightarrow> JSON_stringify f 2)
     (map snd (own_enumerable mockWeatherData)))"
  by code_simp

lemma get_weather_unsupported:
  assumes "truthy args" and "Get args ''city'' = Inr (JStr s)"
    and "Get mockWeatherData (toLowerCase s) = Inr JUndefined"
  shows "weather_callTool ''get_weather'' args = Inr (error_result (not_available s))"
  using assms by (simp add: weather_callTool_def weather_try_def bind_def)

lemma mockWeatherData_missing:
  "Get mockWeatherData k = Inr JUndefined \<longleftrightarrow>
     k \<notin> set supported_cities \<and> k \<notin> set Object_prototype_functions \<and> k \<noteq> ''__proto__''"
  by (auto simp: mockWeatherData_def supported_cities_def Object_prototype_def weather_record_def
      Object_prototype_functions_def)

subsection \<open>Every success of the weather server\<close>

text \<open>
  A call of the weather server succeeds only for a string city whose lowercased form
  names a truthy member of \<open>mockWeatherData\<close>, own or inherited, and the text is then
  \<^verbatim>\<open>JSON.stringify\<close> of that member or of the forecast built from it.
\<close>

lemma weather_success_general:
  assumes "weather_try nm args = Inr r"
  shows "\<exists>s v. Get args ''city'' = Inr (JStr s) \<and> Get mockWeatherData (toLowerCase s) = Inr v
           \<and> truthy v
           \<and> (nm = ''get_weather'' \<and> r = success_result (JSON_stringify v 2)
              \<or> nm = ''get_forecast''
                \<and> (\<exists>f. forecast_of v = Inr f \<and> r = success_result (JSON_stringify f 2)))"
proof -
  from assms obtain c city where c: "Get args ''city'' = Inr c"
      and city: "call_toLowerCase ''args.city'' c = Inr city"
    by (auto simp: weather_try_def bind_Inr_iff)
  from city obtain s where s: "c = JStr s" "city = toLowerCase s"
    by (cases c) auto
  from assms c city obtain v where v: "Get mockWeatherData (toLowerCase s) = Inr v"
    unfolding s by (auto simp: weather_try_def bind_def split: if_splits sum.splits)
  from assms c city v have t: "truthy v"
    unfolding s by (auto simp: weather_try_def bind_def split: if_splits sum.splits)
  from assms c city v t
  have "nm = ''get_weather'' \<and> r = success_result (JSON_stringify v 2)
              \<or> nm = ''get_forecast''
                \<and> (\<exists>f. forecast_of v = Inr f \<and> r = success_result (JSON_stringify f 2))"
    unfolding s by (auto simp: weather_try_def bind_def split: if_splits sum.splits)
  with c v t show ?thesis
    unfolding s by blast
qed

subsection \<open>Tool names\<close>

lemma tool_names_distinct:
  "distinct (map name filesystem_tools)" "distinct (map name weather_tools)"
  by (simp_all add: filesystem_tools_def weather_tools_def)

text \<open>
  The filesystem server reports every unlisted name. The weather server reports it
  when reading and lowercasing \<^verbatim>\<open>args.city\<close> did not throw, and reports what that
  statement threw otherwise.
\<close>

lemma filesystem_unknown_tool:
  assumes "truthy args" and "nm \<notin> set (map name filesystem_tools)"
  shows "filesystem_callTool fs nm args w = (Inr (error_result (unknown_tool nm)), w)"
  using assms by (simp add: filesystem_tools_def filesystem_callTool_def filesystem_try_def)

lemma weather_unknown_tool:
  assumes "truthy args" and "nm \<notin> set (map name weather_tools)"
  shows "weather_callTool nm args =
           Inr (error_result
             (case bind (Get args ''city'') (call_toLowerCase ''args.city'') of
                Inl e \<Rightarrow> e | Inr city \<Rightarrow> unknown_tool nm))"
  using assms
  by (simp add: weather_tools_def weather_callTool_def weather_try_def bind_def split: sum.splits)

lemma unknown_tool_text:
  "content (error_result (unknown_tool nm)) =
     [\<lparr>block_type = ''text'', block_text = Some (''Error: Unknown tool: '' @ nm)\<rparr>]"
  "isError (error_result (unknown_tool nm)) = Some True"
  "str_includes (''Error: Unknown tool: '' @ nm) (''Unknown tool: '' @ nm)"
    apply (simp add: error_result_def unknown_tool_def text_block_def)
   apply (simp add: error_result_def)
  using str_includes_append [of "''Error: ''" "''Unknown tool: '' @ nm"] apply simp
  done

subsection \<open>An arguments mapping is not answered by the guard\<close>

lemma Object_prototype_plain:
  "Object_prototype ''path'' = JUndefined" "Object_prototype ''content'' = JUndefined"
  "Object_prototype ''city'' = JUndefined"
  by (simp_all add: Object_prototype_def Object_prototype_functions_def)

lemma weather_present_arguments: "weather_callTool nm (JObj ps) \<noteq> Inr no_arguments_result"
proof -
  have "weather_try nm (JObj ps) \<noteq> Inl (JsError ''No arguments provided'')"
    using weather_try_error by blast
  moreover have "\<And>r. weather_try nm (JObj ps) = Inr r \<Longrightarrow> r \<noteq> no_arguments_result"
    by (auto dest!: weather_try_success simp: success_not_no_arguments)
  ultimately show ?thesis
    by (auto simp: weather_callTool_def error_result_no_arguments split: sum.splits)
qed

lemma filesystem_guard_text_iff:
  "fst (filesystem_callTool fs nm (JObj ps) w) = Inr no_arguments_result
     \<longleftrightarrow> fst (filesystem_try fs nm (JObj ps) w) = Inl (JsError ''No arguments provided'')"
proof -
  have "\<And>r. fst (filesystem_try fs nm (JObj ps) w) = Inr r \<Longrightarrow> r \<noteq> no_arguments_result"
  proof -
    fix r assume "fst (filesystem_try fs nm (JObj ps) w) = Inr r"
    then have "filesystem_try fs nm (JObj ps) w = (Inr r, snd (filesystem_try fs nm (JObj ps) w))"
      by (simp add: prod_eq_iff)
    then show "r \<noteq> no_arguments_result"
      by (auto dest!: filesystem_try_success simp: success_not_no_arguments)
  qed
  then show ?thesis
    by (auto simp: fst_filesystem_callTool error_result_no_arguments split: sum.splits)
qed

lemma filesystem_present_arguments:
  assumes "\<forall>p d v. fst (readFile fs p v) \<noteq> Inl (JsError ''No arguments provided'')
              \<and> fst (writeFile fs p d v) \<noteq> Inl (JsError ''No arguments provided'')
              \<and> fst (readdir fs p v) \<noteq> Inl (JsError ''No arguments provided'')"
  shows "fst (filesystem_callTool fs nm (JObj ps) w) \<noteq> Inr no_arguments_result"
proof -
  from assms
  have "fst (filesystem_try fs nm (JObj ps) w) \<noteq> Inl (JsError ''No arguments provided'')"
    by (auto simp: fst_filesystem_try fst_read_file fst_write_file fst_list_directory
        bind_Inl_iff unknown_tool_def dest: ToString_error split: option.splits)
  then show ?thesis
    by (simp add: filesystem_guard_text_iff)
qed

text \<open>
  With the empty mapping the filesystem server goes on to the \<^verbatim>\<open>switch\<close>: the named case
  runs with \<^verbatim>\<open>undefined\<close> for the path, and an unlisted name is reported.
\<close>

lemma filesystem_empty_arguments_dispatched:
  "fst (filesystem_callTool fs nm (JObj []) w) =
     (if nm = ''read_file'' then
        (case fst (readFile fs JUndefined w) of
           Inl e \<Rightarrow> Inr (error_result e) | Inr d \<Rightarrow> Inr (success_result (Some d)))
      else if nm = ''write_file'' then
        (case fst (writeFile fs JUndefined JUndefined w) of
           Inl e \<Rightarrow> Inr (error_result e)
         | Inr u \<Rightarrow> Inr (success_result (Some ''Successfully wrote to undefined'')))
      else if nm = ''list_directory'' then
        (case fst (readdir fs JUndefined w) of
           Inl e \<Rightarrow> Inr (error_result e)
         | Inr entries \<Rightarrow> Inr (success_result (JSON_stringify (JArr (map item_of entries)) 2)))
      else Inr (error_result (unknown_tool nm)))"
  by (simp add: fst_filesystem_callTool fst_filesystem_try fst_read_file fst_write_file
      fst_list_directory bind_def Object_prototype_plain split: sum.splits)

section \<open>The dispatch boundary\<close>



text \<open>
  C2. When the arguments are absent (\<^verbatim>\<open>undefined\<close>) or \<^verbatim>\<open>null\<close>, either server answers
  with \<open>isError = true\<close> and the single text block \<^verbatim>\<open>Error: No arguments provided\<close>, for
  every tool name, registered or not. No file system function is called: the answer
  is the same for every behaviour of theirs and the world is left as it was.
\<close>

theorem absent_arguments_rejected:
  assumes "args = JUndefined \<or> args = JNull"
  shows "filesystem_callTool fs nm args w = (Inr no_arguments_result, w)
       \<and> weather_callTool nm args = Inr no_arguments_result
       \<and> content no_arguments_result
           = [\<lparr>block_type = ''text'', block_text = Some ''Error: No arguments provided''\<rparr>]
       \<and> isError no_arguments_result = Some True"
  using assms
  by (auto simp: filesystem_callTool_def weather_callTool_def no_arguments_result_def text_block_def)

theorem absent_arguments_rejected_witness:
  "filesystem_callTool memory_fs ''unregistered'' JNull [(''a.txt'', ''A'')]
     = (Inr no_arguments_result, [(''a.txt'', ''A'')])
   \<and> weather_callTool ''unregistered'' JNull = Inr no_arguments_result
   \<and> content no_arguments_result
       = [\<lparr>block_type = ''text'', block_text = Some ''Error: No arguments provided''\<rparr>]
   \<and> isError no_arguments_result = Some True"
  using absent_arguments_rejected [where args = JNull and fs = memory_fs and nm = "''unregistered''"
      and w = "[(''a.txt'', ''A'')]"]
  by simp

text \<open>
  C5. A discovery request answers with the server's static list of tools, in the
  order the list is written, wherever it stands in a sequence of discovery and call
  requests; and it has no effect: the requests after it are answered, and change the
  world, as if it had not been sent.
\<close>

theorem listTools_stable:
  "filesystem_serve fs (history @ ListToolsRequest # later) w =
     (fst (filesystem_serve fs history w) @ ToolsResponse filesystem_tools
        # fst (filesystem_serve fs later (snd (filesystem_serve fs history w))),
      snd (filesystem_serve fs later (snd (filesystem_serve fs history w))))
   \<and> weather_serve (history @ ListToolsRequest # later) =
       weather_serve history @ ToolsResponse weather_tools # weather_serve later
   \<and> map name filesystem_tools = [''read_file'', ''write_file'', ''list_directory'']
   \<and> map name weather_tools = [''get_weather'', ''get_forecast'']"
  by (simp add: filesystem_serve_append filesystem_handle_def filesystem_listTools_def
      weather_serve_def weather_handle_def weather_listTools_def filesystem_tools_def
      weather_tools_def split: prod.splits)

theorem listTools_stable_witness:
  "filesystem_serve memory_fs
     ([CallToolRequest ''write_file'' (JObj [(''path'', JStr ''a.txt''), (''content'', JStr ''A'')])]
        @ ListToolsRequest # [ListToolsRequest]) [] =
     ([CallResponse (success_result (Some ''Successfully wrote to a.txt'')),
       ToolsResponse filesystem_tools, ToolsResponse filesystem_tools],
      [(''a.txt'', ''A'')])"
  using listTools_stable [of memory_fs
      "[CallToolRequest ''write_file'' (JObj [(''path'', JStr ''a.txt''), (''content'', JStr ''A'')])]"
      "[ListToolsRequest]" "[]"]
  by (simp add: filesystem_handle_def filesystem_listTools_def filesystem_callTool_def
      filesystem_try_def write_file_def memory_fs_def)

text \<open>
  C6. The result of a call holds exactly one content block, hence at least one, on
  the guard's path, on the success paths and on the error path of either server.
\<close>

theorem content_never_empty:
  "(\<exists>r. fst (filesystem_callTool fs nm args w) = Inr r \<and> length (content r) = 1)
   \<and> (\<exists>r. weather_callTool nm args = Inr r \<and> length (content r) = 1)"
proof
  show "\<exists>r. fst (filesystem_callTool fs nm args w) = Inr r \<and> length (content r) = 1"
  proof (cases "truthy args")
    case False
    then show ?thesis by (simp add: filesystem_callTool_def content_no_arguments)
  next
    case True
    obtain out w' where out: "filesystem_try fs nm args w = (out, w')"
      by (cases "filesystem_try fs nm args w")
    show ?thesis
    proof (cases out)
      case (Inl e)
      with True out show ?thesis by (simp add: filesystem_callTool_def content_error)
    next
      case (Inr r)
      with out have "filesystem_try fs nm args w = (Inr r, w')" by simp
      then obtain t where "r = success_result (Some t)"
        by (rule filesystem_try_success [THEN exE])
      with True out Inr show ?thesis by (simp add: filesystem_callTool_def content_success)
    qed
  qed
next
  show "\<exists>r. weather_callTool nm args = Inr r \<and> length (content r) = 1"
  proof (cases "truthy args")
    case False
    then show ?thesis by (simp add: weather_callTool_def content_no_arguments)
  next
    case True
    show ?thesis
    proof (cases "weather_try nm args")
      case (Inl e)
      with True show ?thesis by (simp add: weather_callTool_def content_error)
    next
      case (Inr r)
      then obtain t where "r = success_result t" using weather_try_success by blast
      with True Inr show ?thesis by (simp add: weather_callTool_def content_success)
    qed
  qed
qed

theorem content_never_empty_witness:
  "(\<exists>r. fst (filesystem_callTool memory_fs ''list_directory'' (JObj [(''path'', JStr ''/'')]) [])
          = Inr r \<and> length (content r) = 1)
   \<and> (\<exists>r. weather_callTool ''get_weather'' (JObj [(''city'', JStr ''constructor'')]) = Inr r
          \<and> length (content r) = 1)"
  using content_never_empty [of memory_fs "''list_directory''" "JObj [(''path'', JStr ''/'')]" "[]"]
    content_never_empty [of memory_fs "''get_weather''" "JObj [(''city'', JStr ''constructor'')]" "[]"]
  by blast

text \<open>
  C3 at the input \<^verbatim>\<open>{ name: "nope", arguments: {} }\<close> of the weather server. The tool
  \<^verbatim>\<open>nope\<close> is not in the list. The \<^verbatim>\<open>default\<close> branch of the \<^verbatim>\<open>switch\<close> throws
  \<^verbatim>\<open>Unknown tool: nope\<close>, but the statement before the \<^verbatim>\<open>switch\<close> reads and lowercases
  \<^verbatim>\<open>args.city\<close> for every tool name: with no \<^verbatim>\<open>city\<close> it throws a \<^verbatim>\<open>TypeError\<close> first. The
  result carries the message of that error, and its text does not contain
  \<^verbatim>\<open>Unknown tool: nope\<close>.
\<close>

theorem unknown_tool_not_reported:
  "''nope'' \<notin> set (map name weather_tools)
   \<and> weather_callTool ''nope'' (JObj []) =
       Inr \<lparr>content = [\<lparr>block_type = ''text'',
              block_text = Some ''Error: Cannot read properties of undefined (reading 'toLowerCase')''\<rparr>],
            isError = Some True\<rparr>
   \<and> \<not> str_includes ''Error: Cannot read properties of undefined (reading 'toLowerCase')''
         ''Unknown tool: nope''"
  by (simp add: weather_tools_def weather_callTool_def weather_try_def bind_def
      Object_prototype_def Object_prototype_functions_def cannot_read_def error_result_def
      text_block_def starts_with_def)

text \<open>
  C8. The result of a call is determined by the request and by what the handler's
  file system operation yields for it: two invocations with the same tool name and
  arguments, in which the operation the named tool awaits resolves or rejects alike,
  return equal results, whatever else differs in the world. Every invocation
  returns exactly one result. The weather server's result is a function of the
  request alone.
\<close>

theorem callTool_deterministic:
  assumes "\<And>p. nm = ''read_file'' \<Longrightarrow> Get args ''path'' = Inr p
             \<Longrightarrow> fst (readFile fs p w) = fst (readFile fs' p w')"
    and "\<And>p d. nm = ''write_file'' \<Longrightarrow> Get args ''path'' = Inr p \<Longrightarrow> Get args ''content'' = Inr d
             \<Longrightarrow> fst (writeFile fs p d w) = fst (writeFile fs' p d w')"
    and "\<And>p. nm = ''list_directory'' \<Longrightarrow> Get args ''path'' = Inr p
             \<Longrightarrow> fst (readdir fs p w) = fst (readdir fs' p w')"
  shows "fst (filesystem_callTool fs nm args w) = fst (filesystem_callTool fs' nm args w')
       \<and> (\<exists>!r. fst (filesystem_callTool fs nm args w) = Inr r)
       \<and> (\<exists>!r. weather_callTool nm args = Inr r)"
proof (intro conjI)
  have "fst (filesystem_try fs nm args w) = fst (filesystem_try fs' nm args w')"
  proof (cases "Get args ''path''")
    case (Inl e)
    then show ?thesis
      by (simp add: fst_filesystem_try fst_read_file fst_write_file fst_list_directory bind_def)
  next
    case p: (Inr p)
    show ?thesis
    proof (cases "Get args ''content''")
      case (Inl e)
      with p assms(1,3) show ?thesis
        by (simp add: fst_filesystem_try fst_read_file fst_write_file fst_list_directory bind_def)
    next
      case (Inr d)
      with p assms show ?thesis
        by (simp add: fst_filesystem_try fst_read_file fst_write_file fst_list_directory bind_def)
    qed
  qed
  then show "fst (filesystem_callTool fs nm args w) = fst (filesystem_callTool fs' nm args w')"
    by (simp add: fst_filesystem_callTool)
next
  show "\<exists>!r. fst (filesystem_callTool fs nm args w) = Inr r"
    by (auto simp: fst_filesystem_callTool split: sum.splits)
next
  show "\<exists>!r. weather_callTool nm args = Inr r"
    by (auto simp: weather_callTool_def split: sum.splits)
qed

theorem callTool_deterministic_witness:
  "fst (filesystem_callTool memory_fs ''read_file'' (JObj [(''path'', JStr ''a.txt'')])
          [(''a.txt'', ''A'')])
     = fst (filesystem_callTool memory_fs ''read_file'' (JObj [(''path'', JStr ''a.txt'')])
          [(''b.txt'', ''B''), (''a.txt'', ''A'')])
   \<and> (\<exists>!r. fst (filesystem_callTool memory_fs ''read_file'' (JObj [(''path'', JStr ''a.txt'')])
          [(''a.txt'', ''A'')]) = Inr r)
   \<and> (\<exists>!r. weather_callTool ''read_file'' (JObj [(''path'', JStr ''a.txt'')]) = Inr r)"
  by (rule callTool_deterministic) (auto simp: memory_fs_def)


section \<open>Results of successful calls\<close>

text \<open>
  C4 at the input \<^verbatim>\<open>{ name: "get_weather", arguments: { city: "constructor" } }\<close> of
  the weather server. The tool is registered and its case returns without throwing:
  \<^verbatim>\<open>mockWeatherData[city]\<close> finds the inherited member \<^verbatim>\<open>constructor\<close>, a function, and
  \<^verbatim>\<open>JSON.stringify\<close> of a function is \<^verbatim>\<open>undefined\<close>. The text block of the result has no
  text: nothing of the value the handler looked up can be read from it.
\<close>

theorem success_without_text:
  "''get_weather'' \<in> set (map name weather_tools)
   \<and> weather_try ''get_weather'' (JObj [(''city'', JStr ''constructor'')]) = Inr (success_result None)
   \<and> weather_callTool ''get_weather'' (JObj [(''city'', JStr ''constructor'')])
       = Inr (success_result None)
   \<and> map block_text (content (success_result None)) = [None]"
  by code_simp

section \<open>Unsupported cities in the weather server\<close>

text \<open>
  C10 at the input \<^verbatim>\<open>{ city: "constructor" }\<close>. The city is none of the five keys, yet
  \<^verbatim>\<open>mockWeatherData[city]\<close> finds the member \<^verbatim>\<open>constructor\<close> that every plain object
  inherits, a function and so truthy: no error is thrown, and the result is a success
  whose text is \<^verbatim>\<open>JSON.stringify\<close> of a function, that is \<^verbatim>\<open>undefined\<close>.
\<close>

theorem get_weather_inherited_property:
  "toLowerCase ''constructor'' \<notin> set supported_cities
   \<and> weather_callTool ''get_weather'' (JObj [(''city'', JStr ''constructor'')])
       = Inr \<lparr>content = [\<lparr>block_type = ''text'', block_text = None\<rparr>], isError = None\<rparr>"
  by code_simp

end
